theory Spec2Isabelle
  imports Main "HOL-Library.AList"
begin

section \<open>Server-side sessions of quart-session: the model\<close>

text \<open>
  The development embeds \<^verbatim>\<open>quart_session/sessions.py\<close>: the session class
  \<^verbatim>\<open>ServerSideSession\<close>, the two operations \<^verbatim>\<open>open_session\<close> and
  \<^verbatim>\<open>save_session\<close> of \<^verbatim>\<open>SessionInterface\<close>, and the three backend adapters
  (Redis, Redis over Trio, Memcached).

  Conventions.
  \<^item> A leading underscore is dropped from a Python name: \<^verbatim>\<open>_get_signer\<close> is
    \<open>get_signer\<close>, \<^verbatim>\<open>_config\<close> is \<open>config\<close>; the attribute \<^verbatim>\<open>_dirty\<close> is the
    field \<open>is_dirty\<close>, the method \<^verbatim>\<open>dirty()\<close> is \<open>dirty\<close>.
  \<^item> \<^verbatim>\<open>str\<close> and \<^verbatim>\<open>bytes\<close> are both \<open>string\<close> (the UTF-8 bytes), so
    \<^verbatim>\<open>encode()\<close>, \<^verbatim>\<open>decode()\<close> and \<^verbatim>\<open>want_bytes\<close> are the identity.
  \<^item> A coroutine is the function it computes: every \<^verbatim>\<open>await\<close> is a call, and the
    effects on the backend, the logger and the response are threaded through
    explicitly.
  \<^item> Libraries the module imports (the signer of itsdangerous, the tagged JSON
    serializer, \<^verbatim>\<open>uuid4\<close>, the clock) are parameters.
  \<^item> The store client always answers. A connection failure, which the module does
    not handle, would leave each function as an exception of the client's.
  \<^item> \<^verbatim>\<open>create\<close> and \<^verbatim>\<open>NullSessionInterface\<close>, whose \<^verbatim>\<open>open_session\<close> returns
    \<^verbatim>\<open>None\<close> at once, take no part.
\<close>

subsection \<open>Python values\<close>

text \<open>
  The values a session holds and a payload decodes to. A \<^verbatim>\<open>dict\<close> keeps its
  insertion order, so it is an association list.
\<close>

datatype pyval =
    PNone
  | PBool bool
  | PInt int
  | PStr string
  | PList "pyval list"
  | PDict "(string \<times> pyval) list"

type_synonym pydict = "(string \<times> pyval) list"

text \<open>Python's truth value of an object (\<^verbatim>\<open>if x:\<close>, \<^verbatim>\<open>x or y\<close>).\<close>

fun truthy :: "pyval \<Rightarrow> bool" where
  "truthy PNone = False"
| "truthy (PBool b) = b"
| "truthy (PInt i) = (i \<noteq> 0)"
| "truthy (PStr s) = (s \<noteq> [])"
| "truthy (PList xs) = (xs \<noteq> [])"
| "truthy (PDict d) = (d \<noteq> [])"

text \<open>\<^verbatim>\<open>if s:\<close> on a value that is \<^verbatim>\<open>None\<close> or a \<^verbatim>\<open>str\<close>.\<close>

fun truthy_str :: "string option \<Rightarrow> bool" where
  "truthy_str None = False"
| "truthy_str (Some s) = (s \<noteq> [])"

text \<open>A \<^verbatim>\<open>str\<close> or \<^verbatim>\<open>None\<close> as a value, for comparison with a decoded one.\<close>

fun str_val :: "string option \<Rightarrow> pyval" where
  "str_val None = PNone"
| "str_val (Some s) = PStr s"

datatype py_error = TypeError | AttributeError

text \<open>\<^verbatim>\<open>d.get(key, default)\<close> on a dict.\<close>

definition dict_get :: "pydict \<Rightarrow> string \<Rightarrow> pyval \<Rightarrow> pyval" where
  "dict_get d k dflt = (case map_of d k of None \<Rightarrow> dflt | Some v \<Rightarrow> v)"

text \<open>
  \<^verbatim>\<open>data.get(key, default)\<close> on whatever the serializer returned: only a dict has
  the method.
\<close>

fun py_get :: "pyval \<Rightarrow> string \<Rightarrow> pyval \<Rightarrow> py_error + pyval" where
  "py_get (PDict d) k dflt = Inr (dict_get d k dflt)"
| "py_get _ k dflt = Inl AttributeError"

text \<open>
  \<^verbatim>\<open>super().__init__(**initial or {})\<close>: a falsy value gives no keyword argument,
  a non-empty dict gives its items, anything else is not a mapping. The call binds
  the items to the base constructor \<^verbatim>\<open>__init__(self, *args, **kwargs)\<close>, whose
  first parameter already has its value: an item with the key \<^verbatim>\<open>self\<close> is a second
  value for it, which Python refuses.
\<close>

fun kwargs :: "pyval \<Rightarrow> py_error + pydict" where
  "kwargs (PDict d) = (if ''self'' \<in> set (map fst d) then Inl TypeError else Inr d)"
| "kwargs v = (if truthy v then Inl TypeError else Inr [])"

subsection \<open>The session\<close>

text \<open>
  \<^verbatim>\<open>ServerSideSession\<close> is a dict (\<open>sdata\<close>) with the attributes \<^verbatim>\<open>sid\<close>,
  \<^verbatim>\<open>modified\<close> (of the base class) and \<^verbatim>\<open>_dirty\<close>.
\<close>

record session =
  sdata :: pydict
  sid :: string
  modified :: bool
  is_dirty :: bool

text \<open>
  The base class \<^verbatim>\<open>SecureCookieSession\<close> comes from quart. What the module uses
  of it: item assignment stores the item and sets \<^verbatim>\<open>modified\<close>; the constructor
  fills the dict from its keyword arguments and clears \<^verbatim>\<open>modified\<close>; \<^verbatim>\<open>permanent\<close> is a property kept under
  the key \<^verbatim>\<open>_permanent\<close>, in the way \<^verbatim>\<open>addr\<close> below is kept under \<^verbatim>\<open>_addr\<close>.
\<close>

definition setitem :: "string \<Rightarrow> pyval \<Rightarrow> session \<Rightarrow> session" where
  "setitem k v s = s\<lparr>sdata := AList.update k v (sdata s), modified := True\<rparr>"

definition set_permanent :: "bool \<Rightarrow> session \<Rightarrow> session" where
  "set_permanent value s = setitem ''_permanent'' (PBool value) s"

definition get_permanent :: "session \<Rightarrow> pyval" where
  "get_permanent s = dict_get (sdata s) ''_permanent'' (PBool False)"

text \<open>The property \<^verbatim>\<open>addr\<close> and its setter.\<close>

definition addr :: "session \<Rightarrow> pyval" where
  "addr s = dict_get (sdata s) ''_addr'' (PBool False)"

definition set_addr :: "string \<Rightarrow> session \<Rightarrow> session" where
  "set_addr value s = setitem ''_addr'' (PStr value) s"

text \<open>\<^verbatim>\<open>dirty()\<close>: marks the session to be saved.\<close>

definition dirty :: "session \<Rightarrow> session" where
  "dirty s = s\<lparr>is_dirty := True\<rparr>"

text \<open>
  \<^verbatim>\<open>ServerSideSession.__init__(initial, sid, permanent, addr)\<close>. An argument left
  out is \<^verbatim>\<open>None\<close>: \<open>PNone\<close> for \<^verbatim>\<open>initial\<close>, \<open>None\<close> for the other two.
\<close>

definition ServerSideSession ::
    "pyval \<Rightarrow> string \<Rightarrow> bool option \<Rightarrow> string option \<Rightarrow> py_error + session" where
  "ServerSideSession initial sid' permanent' addr' =
     (case kwargs initial of
        Inl e \<Rightarrow> Inl e
      | Inr d \<Rightarrow>
          let s0 = \<lparr>sdata = d, sid = sid', modified = False, is_dirty = False\<rparr>;
              s1 = (if permanent' = Some True then set_permanent True s0 else s0);
              s2 = (case addr' of
                      None \<Rightarrow> s1
                    | Some a \<Rightarrow> if a \<noteq> [] then set_addr a s1 else s1)
          in Inr (s2\<lparr>is_dirty := False\<rparr>))"

subsection \<open>Application, request, response, configuration\<close>

record timedelta =
  days :: int
  seconds :: int
  microseconds :: int

definition total_seconds :: "timedelta \<Rightarrow> int" where
  "total_seconds td = days td * 60 * 60 * 24 + seconds td"

text \<open>
  What the module reads from the application object. The four cookie fields are the
  results of \<^verbatim>\<open>get_cookie_domain\<close>, \<^verbatim>\<open>get_cookie_path\<close>, \<^verbatim>\<open>get_cookie_httponly\<close>
  and \<^verbatim>\<open>get_cookie_secure\<close>, which the base interface of quart computes from
  the application alone.
\<close>

record app =
  session_cookie_name :: string
  secret_key :: "string option"
  permanent_session_lifetime :: timedelta
  cookie_domain :: "string option"
  cookie_path :: string
  cookie_httponly :: bool
  cookie_secure :: bool

record request =
  cookies :: "string \<rightharpoonup> string"
  headers :: "string \<rightharpoonup> string"
  remote_addr :: "string option"

text \<open>\<^verbatim>\<open>request.headers.get(name, default)\<close>.\<close>

definition headers_get :: "request \<Rightarrow> string \<Rightarrow> string option \<Rightarrow> string option" where
  "headers_get r name dflt = (case headers r name of None \<Rightarrow> dflt | Some v \<Rightarrow> Some v)"

text \<open>
  A cookie as \<^verbatim>\<open>set_cookie\<close> receives it. \<open>expires\<close> is the offset from the
  current time (\<^verbatim>\<open>utcnow() + lifetime\<close>), or \<open>None\<close> for a browser-session cookie.
\<close>

record cookie =
  c_name :: string
  c_value :: string
  c_expires :: "timedelta option"
  c_httponly :: bool
  c_domain :: "string option"
  c_path :: string
  c_secure :: bool

datatype cookie_op =
    SetCookie cookie
  | DeleteCookie string "string option" string

text \<open>
  The response: whether its body is a \<^verbatim>\<open>FileBody\<close>, and the cookie instructions it
  has received, oldest first.
\<close>

record response =
  is_file_body :: bool
  cookie_ops :: "cookie_op list"

definition set_cookie :: "cookie \<Rightarrow> response \<Rightarrow> response" where
  "set_cookie c r = r\<lparr>cookie_ops := cookie_ops r @ [SetCookie c]\<rparr>"

definition delete_cookie :: "string \<Rightarrow> string option \<Rightarrow> string \<Rightarrow> response \<Rightarrow> response" where
  "delete_cookie name domain path r =
     r\<lparr>cookie_ops := cookie_ops r @ [DeleteCookie name domain path]\<rparr>"

text \<open>
  \<^verbatim>\<open>get_expiration_time(app, session)\<close> of quart: a permanent session expires
  one lifetime from now, any other has no expiry.
\<close>

definition get_expiration_time :: "app \<Rightarrow> session \<Rightarrow> timedelta option" where
  "get_expiration_time a s =
     (if truthy (get_permanent s) then Some (permanent_session_lifetime a) else None)"

text \<open>The four options of \<^verbatim>\<open>_config\<close> the module reads, as booleans.\<close>

record session_config =
  SESSION_HIJACK_PROTECTION :: bool
  SESSION_HIJACK_REVERSE_PROXY :: bool
  SESSION_EXPLICIT :: bool
  SESSION_STATIC_FILE :: bool

datatype backend_kind = Redis | RedisTrio | Memcached

text \<open>
  A session interface: the attributes set by \<^verbatim>\<open>__init__\<close>, and which of the three
  subclasses it is.
\<close>

record interface =
  key_prefix :: string
  use_signer :: bool
  permanent :: bool
  config :: session_config
  kind :: backend_kind

subsection \<open>The imported libraries\<close>

text \<open>
  \<open>sign k v\<close> and \<open>unsign k v\<close> are \<^verbatim>\<open>Signer(k, salt='quart-session',
  key_derivation='hmac')\<close>'s two methods, \<open>None\<close> standing for \<^verbatim>\<open>BadSignature\<close>;
  \<open>dumps\<close> and \<open>loads\<close> are the serializer's, \<open>None\<close> standing for any exception.
\<close>

record externals =
  sign :: "string \<Rightarrow> string \<Rightarrow> string"
  unsign :: "string \<Rightarrow> string \<Rightarrow> string option"
  dumps :: "pydict \<Rightarrow> string"
  loads :: "string \<Rightarrow> pyval option"

text \<open>
  \<^verbatim>\<open>_get_signer\<close>: no signer without a secret key. A signer is represented by
  its key.
\<close>

definition get_signer :: "app \<Rightarrow> string option" where
  "get_signer a = (if \<not> truthy_str (secret_key a) then None else secret_key a)"

text \<open>\<^verbatim>\<open>_generate_sid\<close>: the string of the UUID that \<^verbatim>\<open>uuid4()\<close> drew.\<close>

definition generate_sid :: "string \<Rightarrow> string" where
  "generate_sid uuid = uuid"

subsection \<open>The backend\<close>

text \<open>
  The store maps a key to the value and the expiry number it was written with. The
  calls made to the store client are recorded, oldest first, and so are the
  warnings given to the application's logger.
\<close>

datatype backend_call =
    Get string
  | Setex string string int
  | Set string string int
  | Delete string

record world =
  store :: "string \<rightharpoonup> string \<times> int"
  calls :: "backend_call list"
  warnings :: "string list"

definition warning :: "string \<Rightarrow> world \<Rightarrow> world" where
  "warning msg w = w\<lparr>warnings := warnings w @ [msg]\<rparr>"

text \<open>
  \<^verbatim>\<open>MemcachedSessionInterface._get_memcache_timeout\<close>; \<open>now\<close> is
  \<^verbatim>\<open>int(time.time())\<close>.
\<close>

definition get_memcache_timeout :: "int \<Rightarrow> int \<Rightarrow> int" where
  "get_memcache_timeout now timeout =
     (if timeout > 2592000 then timeout + now else timeout)"

text \<open>
  \<^verbatim>\<open>_backend_get\<close> of the three adapters. The Trio adapter returns the value only
  when it is truthy.
\<close>

definition backend_get :: "backend_kind \<Rightarrow> string \<Rightarrow> world \<Rightarrow> string option \<times> world" where
  "backend_get k key w =
     (let w' = w\<lparr>calls := calls w @ [Get key]\<rparr>;
          found = map_option fst (store w key)
      in case k of
           Redis \<Rightarrow> (found, w')
         | RedisTrio \<Rightarrow> (if truthy_str found then found else None, w')
         | Memcached \<Rightarrow> (found, w'))"

text \<open>\<^verbatim>\<open>_backend_set\<close>: \<^verbatim>\<open>setex\<close> for the Redis adapters, \<^verbatim>\<open>set\<close> for Memcached.\<close>

definition backend_set :: "backend_kind \<Rightarrow> app \<Rightarrow> int \<Rightarrow> string \<Rightarrow> string \<Rightarrow> world \<Rightarrow> world" where
  "backend_set k a now key val w =
     (case k of
        Redis \<Rightarrow>
          (let secs = total_seconds (permanent_session_lifetime a)
           in w\<lparr>store := (store w)(key \<mapsto> (val, secs)),
                 calls := calls w @ [Setex key val secs]\<rparr>)
      | RedisTrio \<Rightarrow>
          (let secs = total_seconds (permanent_session_lifetime a)
           in w\<lparr>store := (store w)(key \<mapsto> (val, secs)),
                 calls := calls w @ [Setex key val secs]\<rparr>)
      | Memcached \<Rightarrow>
          (let expiry = get_memcache_timeout now (total_seconds (permanent_session_lifetime a))
           in w\<lparr>store := (store w)(key \<mapsto> (val, expiry)),
                 calls := calls w @ [Set key val expiry]\<rparr>))"

definition backend_delete :: "backend_kind \<Rightarrow> string \<Rightarrow> world \<Rightarrow> world" where
  "backend_delete k key w =
     w\<lparr>store := (store w)(key := None), calls := calls w @ [Delete key]\<rparr>"

subsection \<open>Opening a session\<close>

text \<open>
  The two statements every rejecting branch of \<^verbatim>\<open>open_session\<close> ends with:
  \<^verbatim>\<open>options['sid'] = self._generate_sid()\<close> and
  \<^verbatim>\<open>return self.session_class(**options)\<close>, where \<^verbatim>\<open>options\<close> holds the interface's
  \<^verbatim>\<open>permanent\<close> and the address computed at the top of the function.
\<close>

definition new_session :: "interface \<Rightarrow> string option \<Rightarrow> string \<Rightarrow> py_error + session option" where
  "new_session self addr0 uuid =
     map_sum id Some (ServerSideSession PNone (generate_sid uuid) (Some (permanent self)) addr0)"

text \<open>
  The last statement of \<^verbatim>\<open>open_session\<close>: \<^verbatim>\<open>self.session_class(data, sid)\<close>, with
  neither \<^verbatim>\<open>permanent\<close> nor \<^verbatim>\<open>addr\<close>.
\<close>

definition rehydrate :: "pyval \<Rightarrow> string \<Rightarrow> py_error + session option" where
  "rehydrate data sid' = map_sum id Some (ServerSideSession data sid' None None)"

text \<open>
  The address the stored one is compared with: the forwarded-for header counts only
  behind a reverse proxy.
\<close>

definition hijack_addr :: "interface \<Rightarrow> request \<Rightarrow> string option" where
  "hijack_addr self r =
     (if SESSION_HIJACK_REVERSE_PROXY (config self)
      then headers_get r ''X-Forwarded-For'' (remote_addr r)
      else remote_addr r)"

text \<open>
  \<^verbatim>\<open>open_session\<close> from the backend lookup on: fetch, decode, hijack check,
  rehydration. \<open>sid'\<close> is the identifier after the signature check, \<open>addr0\<close> the
  address in \<^verbatim>\<open>options\<close>.
\<close>

definition load_session ::
    "externals \<Rightarrow> interface \<Rightarrow> request \<Rightarrow> string option \<Rightarrow> string \<Rightarrow> string \<Rightarrow> world
       \<Rightarrow> (py_error + session option) \<times> world" where
  "load_session ext self r addr0 uuid sid' w =
     (let key = key_prefix self @ sid'
      in case backend_get (kind self) key w of
           (None, w1) \<Rightarrow> (new_session self addr0 uuid, w1)
         | (Some val, w1) \<Rightarrow>
             (case loads ext val of
                None \<Rightarrow>
                  (new_session self addr0 uuid,
                   warning (''Failed to deserialize session data for sid: '' @ sid'
                            @ ''. Generating new sid.'') w1)
              | Some data \<Rightarrow>
                  if SESSION_HIJACK_PROTECTION (config self) then
                    (let addr2 = hijack_addr self r
                     in case py_get data ''_addr'' (str_val addr2) of
                          Inl e \<Rightarrow> (Inl e, w1)
                        | Inr stored \<Rightarrow>
                            if stored \<noteq> str_val addr2
                            then (new_session self addr0 uuid,
                                  backend_delete (kind self) key w1)
                            else (rehydrate data sid', w1))
                  else (rehydrate data sid', w1)))"

text \<open>
  The \<^verbatim>\<open>addr\<close> entry of \<^verbatim>\<open>options\<close>, computed at the top of \<^verbatim>\<open>open_session\<close>:
  with hijack protection, the forwarded-for header or else the remote address.
\<close>

definition options_addr :: "interface \<Rightarrow> request \<Rightarrow> string option" where
  "options_addr self r =
     (if SESSION_HIJACK_PROTECTION (config self)
      then headers_get r ''X-Forwarded-For'' (remote_addr r)
      else None)"

text \<open>
  \<^verbatim>\<open>SessionInterface.open_session\<close>. The result is the exception raised, or the
  value returned: \<open>None\<close> or a session. \<open>uuid\<close> is the identifier the generator
  yields if this call asks for one. \<^verbatim>\<open>not sid\<close> holds of a missing cookie and of
  an empty one.
\<close>

definition open_session ::
    "externals \<Rightarrow> interface \<Rightarrow> app \<Rightarrow> request \<Rightarrow> string \<Rightarrow> world
       \<Rightarrow> (py_error + session option) \<times> world" where
  "open_session ext self a r uuid w =
     (let addr0 = options_addr self r
      in case cookies r (session_cookie_name a) of
           None \<Rightarrow> (new_session self addr0 uuid, w)
         | Some c \<Rightarrow>
             if c = [] then (new_session self addr0 uuid, w)
             else if use_signer self then
               (case get_signer a of
                  None \<Rightarrow> (Inr None, warning ''Failed to obtain a valid signer.'' w)
                | Some k \<Rightarrow>
                    (case unsign ext k c of
                       None \<Rightarrow>
                         (new_session self addr0 uuid,
                          warning (''Bad signature for sid: '' @ c @ ''.'') w)
                     | Some raw \<Rightarrow> load_session ext self r addr0 uuid raw w))
             else load_session ext self r addr0 uuid c w)"

subsection \<open>Saving a session\<close>

text \<open>
  \<^verbatim>\<open>SessionInterface.save_session\<close>. The result is the exception raised, if any,
  with the response and the world as the call leaves them. \<open>now\<close> is
  \<^verbatim>\<open>int(time.time())\<close>, which only the Memcached adapter reads.
\<close>

definition save_session ::
    "externals \<Rightarrow> interface \<Rightarrow> app \<Rightarrow> int \<Rightarrow> session \<Rightarrow> response \<Rightarrow> world
       \<Rightarrow> py_error option \<times> response \<times> world" where
  "save_session ext self a now s r w =
     (if SESSION_EXPLICIT (config self) \<and> \<not> is_dirty s then (None, r, w)
      else if \<not> SESSION_STATIC_FILE (config self) \<and> is_file_body r then (None, r, w)
      else
        (let session_key = key_prefix self @ sid s;
             domain = cookie_domain a;
             path = cookie_path a
         in if sdata s = [] then
              (if modified s
               then (None,
                     delete_cookie (session_cookie_name a) domain path r,
                     backend_delete (kind self) session_key w)
               else (None, r, w))
            else
              (let httponly = cookie_httponly a;
                   secure = cookie_secure a;
                   expires = get_expiration_time a s;
                   val = dumps ext (sdata s);
                   w' = backend_set (kind self) a now session_key val w
               in case (if use_signer self
                        then (case get_signer a of
                                None \<Rightarrow> Inl AttributeError
                              | Some k \<Rightarrow> Inr (sign ext k (sid s)))
                        else Inr (sid s)) of
                    Inl e \<Rightarrow> (Some e, r, w')
                  | Inr session_id \<Rightarrow>
                      (None,
                       set_cookie \<lparr>c_name = session_cookie_name a, c_value = session_id,
                                   c_expires = expires, c_httponly = httponly,
                                   c_domain = domain, c_path = path, c_secure = secure\<rparr> r,
                       w'))))"

subsection \<open>The cases of a call\<close>

text \<open>
  The conditions the properties below are stated under, as functions of the inputs
  of \<^verbatim>\<open>open_session\<close> and \<^verbatim>\<open>save_session\<close>.
\<close>

text \<open>Neither early return of \<^verbatim>\<open>save_session\<close> is taken.\<close>

definition passes_early_checks :: "interface \<Rightarrow> session \<Rightarrow> response \<Rightarrow> bool" where
  "passes_early_checks self s r \<longleftrightarrow>
     \<not> (SESSION_EXPLICIT (config self) \<and> \<not> is_dirty s) \<and>
     \<not> (\<not> SESSION_STATIC_FILE (config self) \<and> is_file_body r)"

text \<open>The request has no session cookie, or an empty one.\<close>

definition missing_cookie :: "app \<Rightarrow> request \<Rightarrow> bool" where
  "missing_cookie a r \<longleftrightarrow> \<not> truthy_str (cookies r (session_cookie_name a))"


text \<open>
  The identifier a request presents: the cookie itself without signing, its verified
  payload with signing. \<open>None\<close> when there is no such identifier.
\<close>

definition presented_sid :: "externals \<Rightarrow> interface \<Rightarrow> app \<Rightarrow> request \<Rightarrow> string option" where
  "presented_sid ext self a r =
     (case cookies r (session_cookie_name a) of
        None \<Rightarrow> None
      | Some c \<Rightarrow>
          if c = [] then None
          else if use_signer self then
            (case get_signer a of None \<Rightarrow> None | Some k \<Rightarrow> unsign ext k c)
          else Some c)"

text \<open>What the adapter finds under the identifier's key.\<close>

definition fetched :: "interface \<Rightarrow> string \<Rightarrow> world \<Rightarrow> string option" where
  "fetched self sid' w = fst (backend_get (kind self) (key_prefix self @ sid') w)"



text \<open>
  The payload decodes to a dict whose \<^verbatim>\<open>_addr\<close> differs from the address of this
  request, under hijack protection.
\<close>

definition addr_mismatch :: "externals \<Rightarrow> interface \<Rightarrow> app \<Rightarrow> request \<Rightarrow> world \<Rightarrow> bool" where
  "addr_mismatch ext self a r w \<longleftrightarrow>
     (case presented_sid ext self a r of
        None \<Rightarrow> False
      | Some sid' \<Rightarrow>
          (case fetched self sid' w of
             None \<Rightarrow> False
           | Some val \<Rightarrow>
               (case loads ext val of
                  Some (PDict d) \<Rightarrow>
                    SESSION_HIJACK_PROTECTION (config self) \<and>
                    dict_get d ''_addr'' (str_val (hijack_addr self r))
                      \<noteq> str_val (hijack_addr self r)
                | _ \<Rightarrow> False)))"


text \<open>
  What the constructor puts into a session that starts without data: the
  \<^verbatim>\<open>permanent\<close> flag of the interface and the address in \<^verbatim>\<open>options\<close>.
\<close>

definition bindings :: "interface \<Rightarrow> request \<Rightarrow> pydict" where
  "bindings self r =
     (if permanent self then [(''_permanent'', PBool True)] else []) @
     (case options_addr self r of
        None \<Rightarrow> []
      | Some a' \<Rightarrow> if a' \<noteq> [] then [(''_addr'', PStr a')] else [])"

text \<open>
  The hijack check lets the decoded value through: hijack protection is off, or the
  value is a dict that has no \<^verbatim>\<open>_addr\<close> or whose \<^verbatim>\<open>_addr\<close> is the address of this
  request.
\<close>

definition hijack_check_passes :: "interface \<Rightarrow> request \<Rightarrow> pyval \<Rightarrow> bool" where
  "hijack_check_passes self r data \<longleftrightarrow>
     (SESSION_HIJACK_PROTECTION (config self) \<longrightarrow>
        (case data of
           PDict d \<Rightarrow>
             (case map_of d ''_addr'' of
                None \<Rightarrow> True
              | Some stored \<Rightarrow> stored = str_val (hijack_addr self r))
         | _ \<Rightarrow> False))"

subsection \<open>Concrete inputs\<close>

text \<open>
  Stand-ins for the libraries, for evaluating the model. The signer has the format
  of the real one, which signs a value as the value, a dot and a signature, and
  unsigns by splitting at the last dot and verifying the signature of what stands
  before it; here the signature is the key itself. The serializer knows five
  payloads.
\<close>

definition demo_sign :: "string \<Rightarrow> string \<Rightarrow> string" where
  "demo_sign k v = v @ ''.'' @ k"

definition demo_unsign :: "string \<Rightarrow> string \<Rightarrow> string option" where
  "demo_unsign k c =
     (let n = length c - (length k + 1)
      in if length k + 1 \<le> length c \<and> drop n c = ''.'' @ k then Some (take n c) else None)"

definition demo_data :: pydict where
  "demo_data = [(''user'', PStr ''alice''), (''count'', PInt 3)]"

definition demo_bound :: pydict where
  "demo_bound = [(''_addr'', PStr ''10.0.0.1''), (''user'', PStr ''alice'')]"

definition demo_self :: pydict where
  "demo_self = [(''self'', PInt 1)]"

definition demo_dumps :: "pydict \<Rightarrow> string" where
  "demo_dumps d =
     (if d = demo_data then ''{user: alice, count: 3}''
      else if d = demo_bound then ''{_addr: 10.0.0.1, user: alice}''
      else if d = demo_self then ''{self: 1}''
      else ''{}'')"

definition demo_loads :: "string \<Rightarrow> pyval option" where
  "demo_loads v =
     (if v = ''{user: alice, count: 3}'' then Some (PDict demo_data)
      else if v = ''{_addr: 10.0.0.1, user: alice}'' then Some (PDict demo_bound)
      else if v = ''{self: 1}'' then Some (PDict demo_self)
      else if v = ''{}'' then Some (PDict [])
      else if v = ''null'' then Some PNone
      else None)"

definition demo_ext :: externals where
  "demo_ext = \<lparr>sign = demo_sign, unsign = demo_unsign, dumps = demo_dumps, loads = demo_loads\<rparr>"

definition demo_config :: session_config where
  "demo_config = \<lparr>SESSION_HIJACK_PROTECTION = False, SESSION_HIJACK_REVERSE_PROXY = False,
                  SESSION_EXPLICIT = False, SESSION_STATIC_FILE = False\<rparr>"

definition demo_iface :: interface where
  "demo_iface = \<lparr>key_prefix = ''session:'', use_signer = False, permanent = True,
                 config = demo_config, kind = Redis\<rparr>"

definition demo_app :: app where
  "demo_app = \<lparr>session_cookie_name = ''session'', secret_key = Some ''s3cret'',
               permanent_session_lifetime = \<lparr>days = 31, seconds = 0, microseconds = 0\<rparr>,
               cookie_domain = None, cookie_path = ''/'', cookie_httponly = True,
               cookie_secure = False\<rparr>"

definition demo_request :: "string option \<Rightarrow> request" where
  "demo_request c =
     \<lparr>cookies = (\<lambda>name. if name = ''session'' then c else None),
      headers = Map.empty, remote_addr = Some ''10.0.0.2''\<rparr>"

definition demo_response :: response where
  "demo_response = \<lparr>is_file_body = False, cookie_ops = []\<rparr>"

definition demo_world :: world where
  "demo_world = \<lparr>store = Map.empty, calls = [], warnings = []\<rparr>"

definition demo_session :: session where
  "demo_session = \<lparr>sdata = demo_data, sid = ''abc-123'', modified = True, is_dirty = False\<rparr>"

text \<open>Variations of the inputs above.\<close>

definition demo_uuid :: string where
  "demo_uuid = ''1b4e28ba-2fa1-41d2-883f-0016d3cca427''"

definition explicit_iface :: interface where
  "explicit_iface = demo_iface\<lparr>config := demo_config\<lparr>SESSION_EXPLICIT := True\<rparr>\<rparr>"

definition signing_iface :: interface where
  "signing_iface = demo_iface\<lparr>use_signer := True\<rparr>"

definition bound_iface :: interface where
  "bound_iface =
     demo_iface\<lparr>permanent := False,
                config := demo_config\<lparr>SESSION_HIJACK_PROTECTION := True\<rparr>\<rparr>"

definition strict_iface :: interface where
  "strict_iface = demo_iface\<lparr>config := demo_config\<lparr>SESSION_HIJACK_PROTECTION := True\<rparr>\<rparr>"

definition keyless_app :: app where
  "keyless_app = demo_app\<lparr>secret_key := None\<rparr>"

definition self_session :: session where
  "self_session = \<lparr>sdata = demo_self, sid = ''abc-123'', modified = True, is_dirty = False\<rparr>"

definition emptied_session :: session where
  "emptied_session = \<lparr>sdata = [], sid = ''abc-123'', modified = True, is_dirty = False\<rparr>"

definition stored_world :: "string \<Rightarrow> string \<Rightarrow> world" where
  "stored_world key val = \<lparr>store = [key \<mapsto> (val, 2678400)], calls = [], warnings = []\<rparr>"

section \<open>Properties\<close>

lemmas demo_defs =
  demo_ext_def demo_config_def demo_iface_def demo_app_def demo_request_def
  demo_response_def demo_world_def demo_session_def demo_data_def demo_bound_def
  demo_sign_def demo_unsign_def demo_dumps_def demo_loads_def demo_uuid_def
  demo_self_def self_session_def
  explicit_iface_def signing_iface_def bound_iface_def strict_iface_def keyless_app_def
  emptied_session_def stored_world_def

subsection \<open>The steps of \<^verbatim>\<open>save_session\<close>\<close>

lemma save_session_early:
  "\<not> passes_early_checks self s r \<Longrightarrow> save_session ext self a now s r w = (None, r, w)"
  by (auto simp add: save_session_def passes_early_checks_def)

lemma save_session_empty_eq:
  "passes_early_checks self s r \<Longrightarrow> sdata s = [] \<Longrightarrow>
   save_session ext self a now s r w =
     (if modified s
      then (None,
            delete_cookie (session_cookie_name a) (cookie_domain a) (cookie_path a) r,
            backend_delete (kind self) (key_prefix self @ sid s) w)
      else (None, r, w))"
  by (auto simp add: save_session_def passes_early_checks_def Let_def)

lemma save_session_nonempty_eq:
  assumes "sdata s \<noteq> []"
    and "passes_early_checks self s r"
    and "use_signer self \<longrightarrow> get_signer a = Some k"
  shows "save_session ext self a now s r w =
           (None,
            set_cookie
              \<lparr>c_name = session_cookie_name a,
               c_value = (if use_signer self then sign ext k (sid s) else sid s),
               c_expires = get_expiration_time a s,
               c_httponly = cookie_httponly a, c_domain = cookie_domain a,
               c_path = cookie_path a, c_secure = cookie_secure a\<rparr> r,
            backend_set (kind self) a now (key_prefix self @ sid s) (dumps ext (sdata s)) w)"
proof -
  from assms(2) have early:
    "\<not> (SESSION_EXPLICIT (config self) \<and> \<not> is_dirty s)"
    "\<not> (\<not> SESSION_STATIC_FILE (config self) \<and> is_file_body r)"
    by (simp_all add: passes_early_checks_def)
  show ?thesis
  proof (cases "use_signer self")
    case True
    with assms(3) have "get_signer a = Some k" by simp
    with True early assms(1) show ?thesis
      by (auto simp add: save_session_def Let_def)
  next
    case False
    with early assms(1) show ?thesis
      by (auto simp add: save_session_def Let_def)
  qed
qed

lemma backend_set_effect:
  "backend_set k a now key val w =
     w\<lparr>store := (store w)(key \<mapsto>
          (val, if k = Memcached
                then get_memcache_timeout now (total_seconds (permanent_session_lifetime a))
                else total_seconds (permanent_session_lifetime a))),
       calls := calls w @
          [if k = Memcached
           then Set key val
                  (get_memcache_timeout now (total_seconds (permanent_session_lifetime a)))
           else Setex key val (total_seconds (permanent_session_lifetime a))]\<rparr>"
  by (cases k) (simp_all add: backend_set_def Let_def)

subsection \<open>The steps of \<^verbatim>\<open>open_session\<close>\<close>

lemma ServerSideSession_sid:
  "ServerSideSession initial sid' p a0 = Inr s \<Longrightarrow> sid s = sid'"
  by (auto simp add: ServerSideSession_def set_permanent_def set_addr_def setitem_def Let_def
        split: sum.splits option.splits if_splits)

lemma new_session_eq:
  "new_session self (options_addr self r) uuid =
     Inr (Some \<lparr>sdata = bindings self r, sid = uuid,
                modified = (bindings self r \<noteq> []), is_dirty = False\<rparr>)"
  by (simp add: new_session_def ServerSideSession_def generate_sid_def bindings_def
        set_permanent_def set_addr_def setitem_def Let_def split: option.splits)

lemma rehydrate_eq:
  "rehydrate data sid' =
     (case kwargs data of
        Inl e \<Rightarrow> Inl e
      | Inr d \<Rightarrow> Inr (Some \<lparr>sdata = d, sid = sid', modified = False, is_dirty = False\<rparr>))"
  by (simp add: rehydrate_def ServerSideSession_def split: sum.splits)

lemma rehydrate_dict:
  "rehydrate (PDict d) sid' =
     (if ''self'' \<in> set (map fst d) then Inl TypeError
      else Inr (Some \<lparr>sdata = d, sid = sid', modified = False, is_dirty = False\<rparr>))"
  by (simp add: rehydrate_eq)

lemma open_session_missing:
  "missing_cookie a r \<Longrightarrow>
   open_session ext self a r uuid w = (new_session self (options_addr self r) uuid, w)"
  by (cases "cookies r (session_cookie_name a)")
     (simp_all add: open_session_def missing_cookie_def)


lemma open_session_presented:
  "presented_sid ext self a r = Some sid' \<Longrightarrow>
   open_session ext self a r uuid w =
     load_session ext self r (options_addr self r) uuid sid' w"
  by (auto simp add: open_session_def presented_sid_def split: option.splits if_splits)


lemma backend_get_eq:
  "backend_get k key w = (fst (backend_get k key w), w\<lparr>calls := calls w @ [Get key]\<rparr>)"
  by (cases k) (simp_all add: backend_get_def Let_def)

lemma load_session_absent:
  assumes "fetched self sid' w = None"
  shows "load_session ext self r addr0 uuid sid' w =
           (new_session self addr0 uuid,
            w\<lparr>calls := calls w @ [Get (key_prefix self @ sid')]\<rparr>)"
proof -
  have "backend_get (kind self) (key_prefix self @ sid') w =
          (None, w\<lparr>calls := calls w @ [Get (key_prefix self @ sid')]\<rparr>)"
    using assms backend_get_eq [of "kind self" "key_prefix self @ sid'" w]
    by (simp add: fetched_def)
  then show ?thesis by (simp add: load_session_def)
qed

lemma load_session_fetched:
  assumes "fetched self sid' w = Some val"
  shows "load_session ext self r addr0 uuid sid' w =
     (let key = key_prefix self @ sid'; w1 = w\<lparr>calls := calls w @ [Get key]\<rparr>
      in case loads ext val of
           None \<Rightarrow>
             (new_session self addr0 uuid,
              warning (''Failed to deserialize session data for sid: '' @ sid'
                       @ ''. Generating new sid.'') w1)
         | Some data \<Rightarrow>
             if SESSION_HIJACK_PROTECTION (config self) then
               (let addr2 = hijack_addr self r
                in case py_get data ''_addr'' (str_val addr2) of
                     Inl e \<Rightarrow> (Inl e, w1)
                   | Inr stored \<Rightarrow>
                       if stored \<noteq> str_val addr2
                       then (new_session self addr0 uuid,
                             backend_delete (kind self) key w1)
                       else (rehydrate data sid', w1))
             else (rehydrate data sid', w1))"
proof -
  have "backend_get (kind self) (key_prefix self @ sid') w =
          (Some val, w\<lparr>calls := calls w @ [Get (key_prefix self @ sid')]\<rparr>)"
    using assms backend_get_eq [of "kind self" "key_prefix self @ sid'" w]
    by (simp add: fetched_def)
  then show ?thesis by (simp add: load_session_def Let_def)
qed


lemma load_session_dict:
  assumes "fetched self sid' w = Some val" and "loads ext val = Some (PDict d)"
  shows "load_session ext self r addr0 uuid sid' w =
           (if SESSION_HIJACK_PROTECTION (config self) \<and>
               dict_get d ''_addr'' (str_val (hijack_addr self r))
                 \<noteq> str_val (hijack_addr self r)
            then (new_session self addr0 uuid,
                  backend_delete (kind self) (key_prefix self @ sid')
                    (w\<lparr>calls := calls w @ [Get (key_prefix self @ sid')]\<rparr>))
            else (rehydrate (PDict d) sid',
                  w\<lparr>calls := calls w @ [Get (key_prefix self @ sid')]\<rparr>))"
  using assms(2) by (simp add: load_session_fetched [OF assms(1)] Let_def)

lemma hijack_check_passes_iff:
  "hijack_check_passes self r (PDict d) \<longleftrightarrow>
     \<not> (SESSION_HIJACK_PROTECTION (config self) \<and>
        dict_get d ''_addr'' (str_val (hijack_addr self r)) \<noteq> str_val (hijack_addr self r))"
  by (auto simp add: hijack_check_passes_def dict_get_def split: option.splits)

lemma hijack_check_passes_dict:
  "hijack_check_passes self r data \<Longrightarrow> SESSION_HIJACK_PROTECTION (config self) \<Longrightarrow>
   \<exists>d. data = PDict d"
  by (cases data) (simp_all add: hijack_check_passes_def)


lemma new_session_sid:
  "new_session self addr0 uuid = Inr (Some s) \<Longrightarrow> sid s = uuid"
  by (cases "ServerSideSession PNone (generate_sid uuid) (Some (permanent self)) addr0")
     (auto simp add: new_session_def generate_sid_def dest: ServerSideSession_sid)

lemma rehydrate_sid:
  "rehydrate data sid' = Inr (Some s) \<Longrightarrow> sid s = sid'"
  by (cases "ServerSideSession data sid' None None")
     (auto simp add: rehydrate_def dest: ServerSideSession_sid)

lemma load_session_sid:
  assumes "fst (load_session ext self r addr0 uuid sid' w) = Inr (Some s)"
  shows "sid s = uuid \<or> sid s = sid'"
proof (cases "fetched self sid' w")
  case None
  with assms show ?thesis
    by (simp add: load_session_absent new_session_sid)
next
  case (Some val)
  with assms show ?thesis
    by (auto simp add: load_session_fetched Let_def
          split: option.splits if_splits sum.splits
          dest: new_session_sid rehydrate_sid)
qed

lemma open_session_not_presented:
  "presented_sid ext self a r = None \<Longrightarrow>
   fst (open_session ext self a r uuid w) = new_session self (options_addr self r) uuid \<or>
   fst (open_session ext self a r uuid w) = Inr None"
  by (auto simp add: open_session_def presented_sid_def split: option.splits if_splits)

lemma open_session_sid:
  assumes "fst (open_session ext self a r uuid w) = Inr (Some s)"
  shows "sid s = uuid \<or> presented_sid ext self a r = Some (sid s)"
proof (cases "presented_sid ext self a r")
  case None
  from open_session_not_presented [OF None, of uuid w] assms
  have "new_session self (options_addr self r) uuid = Inr (Some s)" by auto
  then show ?thesis by (simp add: new_session_sid)
next
  case (Some sid')
  with assms load_session_sid [of ext self r "options_addr self r" uuid sid' w s]
  show ?thesis by (auto simp add: open_session_presented)
qed

lemma presented_sid_unsigned:
  "\<not> use_signer self \<Longrightarrow> presented_sid ext self a r = Some x \<Longrightarrow> x \<noteq> []"
  by (auto simp add: presented_sid_def split: option.splits if_splits)

lemma open_session_rehydrates:
  assumes "presented_sid ext self a r = Some sid'"
    and "fetched self sid' w = Some val"
    and "loads ext val = Some data"
    and "hijack_check_passes self r data"
  shows "open_session ext self a r uuid w =
           (rehydrate data sid', w\<lparr>calls := calls w @ [Get (key_prefix self @ sid')]\<rparr>)"
proof (cases "SESSION_HIJACK_PROTECTION (config self)")
  case False
  with assms(3) show ?thesis
    by (simp add: open_session_presented [OF assms(1)] load_session_fetched [OF assms(2)]
          Let_def)
next
  case True
  from hijack_check_passes_dict [OF assms(4) True] obtain d where d: "data = PDict d" ..
  from assms(4) have
    "(SESSION_HIJACK_PROTECTION (config self) \<and>
      dict_get d ''_addr'' (str_val (hijack_addr self r)) \<noteq> str_val (hijack_addr self r))
     = False"
    unfolding d by (simp only: hijack_check_passes_iff)
  then show ?thesis
    using assms(3) unfolding d
    by (simp only: open_session_presented [OF assms(1)] load_session_dict [OF assms(2)]
          if_False)
qed

section \<open>The Memcached timeout\<close>

text \<open>
  C8. A timeout above 2592000 seconds (30 days) is translated to the timeout plus the
  current Unix time, an absolute expiry that lies the whole requested duration after
  the clock's reading; a timeout of at most 2592000 seconds is returned unchanged.
\<close>

theorem get_memcache_timeout_translation:
  "(2592000 < timeout \<longrightarrow>
      get_memcache_timeout now timeout = timeout + now \<and>
      timeout \<le> get_memcache_timeout now timeout - now) \<and>
   (timeout \<le> 2592000 \<longrightarrow> get_memcache_timeout now timeout = timeout)"
  by (simp add: get_memcache_timeout_def)

theorem get_memcache_timeout_translation_witness:
  "get_memcache_timeout 1700000000 (40 * 86400) = 1700000000 + 40 * 86400 \<and>
   get_memcache_timeout 1700000000 (30 * 86400) = 30 * 86400"
  using get_memcache_timeout_translation [of "40 * 86400" 1700000000]
        get_memcache_timeout_translation [of "30 * 86400" 1700000000]
  by simp

section \<open>Saving\<close>

text \<open>
  C6. In explicit-save mode a session whose dirty flag is false is not saved:
  \<^verbatim>\<open>save_session\<close> returns at once, makes no call to the backend, gives the
  response no cookie instruction, and leaves both as they were. That holds whatever
  the session's data are, also after an item has been assigned.
\<close>

theorem save_session_explicit_not_dirty:
  assumes "SESSION_EXPLICIT (config self)" and "\<not> is_dirty s"
  shows "save_session ext self a now s r w = (None, r, w) \<and>
         save_session ext self a now (setitem key v s) r w = (None, r, w)"
  using assms by (simp add: save_session_def setitem_def)

theorem save_session_explicit_not_dirty_witness:
  "SESSION_EXPLICIT (config explicit_iface) \<and> \<not> is_dirty demo_session \<and>
   save_session demo_ext explicit_iface demo_app 0 demo_session demo_response demo_world
     = (None, demo_response, demo_world) \<and>
   save_session demo_ext explicit_iface demo_app 0
       (setitem ''user'' (PStr ''bob'') demo_session) demo_response demo_world
     = (None, demo_response, demo_world)"
proof -
  have e: "SESSION_EXPLICIT (config explicit_iface)"
    by (simp add: explicit_iface_def demo_iface_def demo_config_def)
  have d: "\<not> is_dirty demo_session"
    by (simp add: demo_session_def)
  from save_session_explicit_not_dirty [OF e d] e d show ?thesis by blast
qed

text \<open>
  C4, as stated, fails: an empty session whose \<^verbatim>\<open>modified\<close> flag is set is not
  deleted when \<^verbatim>\<open>save_session\<close> returns early. Here explicit-save mode is on and
  the session is not dirty: no backend call, no cookie instruction.
\<close>

theorem save_session_empty_modified_counterexample:
  "sdata emptied_session = [] \<and> modified emptied_session \<and>
   save_session demo_ext explicit_iface demo_app 0 emptied_session demo_response
       (stored_world ''session:abc-123'' ''{user: alice, count: 3}'') =
     (None, demo_response, stored_world ''session:abc-123'' ''{user: alice, count: 3}'') \<and>
   calls (stored_world ''session:abc-123'' ''{user: alice, count: 3}'') = [] \<and>
   cookie_ops demo_response = []"
  by (simp add: save_session_def demo_defs)

text \<open>
  C4, amended. A session whose data mapping is empty at save time is never written
  to the backend, and saving it raises nothing. If it passes the early checks and its
  \<^verbatim>\<open>modified\<close> flag is set, \<^verbatim>\<open>save_session\<close> deletes the backend key
  \<^verbatim>\<open>key_prefix + sid\<close> and tells the response to delete the session cookie with the
  application's cookie domain and path. Otherwise (an early check returns, or
  \<^verbatim>\<open>modified\<close> is false) it changes nothing.
\<close>

theorem save_session_empty:
  assumes "sdata s = []"
  shows "case save_session ext self a now s r w of
           (e, r', w') \<Rightarrow>
             e = None \<and>
             (\<forall>k v. store w' k = Some v \<longrightarrow> store w k = Some v) \<and>
             (\<forall>c. c \<in> set (calls w') \<longrightarrow>
                    c \<in> set (calls w) \<or> c = Delete (key_prefix self @ sid s)) \<and>
             (passes_early_checks self s r \<and> modified s \<longrightarrow>
                calls w' = calls w @ [Delete (key_prefix self @ sid s)] \<and>
                store w' = (store w)(key_prefix self @ sid s := None) \<and>
                warnings w' = warnings w \<and>
                r' = r\<lparr>cookie_ops := cookie_ops r @
                        [DeleteCookie (session_cookie_name a) (cookie_domain a)
                           (cookie_path a)]\<rparr>) \<and>
             (\<not> (passes_early_checks self s r \<and> modified s) \<longrightarrow> r' = r \<and> w' = w)"
proof (cases "passes_early_checks self s r")
  case False
  then show ?thesis by (simp add: save_session_early)
next
  case True
  show ?thesis
  proof (cases "modified s")
    case False
    with True assms show ?thesis by (simp add: save_session_empty_eq)
  next
    case m: True
    with True assms show ?thesis
      by (simp add: save_session_empty_eq backend_delete_def delete_cookie_def)
  qed
qed

theorem save_session_empty_witness:
  "sdata emptied_session = [] \<and>
   passes_early_checks demo_iface emptied_session demo_response \<and>
   modified emptied_session \<and>
   save_session demo_ext demo_iface demo_app 0 emptied_session demo_response
       (stored_world ''session:abc-123'' ''{user: alice, count: 3}'') =
     (None,
      \<lparr>is_file_body = False, cookie_ops = [DeleteCookie ''session'' None ''/'']\<rparr>,
      \<lparr>store = Map.empty, calls = [Delete ''session:abc-123''], warnings = []\<rparr>)"
proof -
  let ?w = "stored_world ''session:abc-123'' ''{user: alice, count: 3}''"
  have e: "sdata emptied_session = []" by (simp add: emptied_session_def)
  have p: "passes_early_checks demo_iface emptied_session demo_response"
    by (simp add: passes_early_checks_def demo_defs)
  have m: "modified emptied_session" by (simp add: emptied_session_def)
  obtain x r' w' where
    s: "save_session demo_ext demo_iface demo_app 0 emptied_session demo_response ?w
          = (x, r', w')"
    by (rule prod_cases3)
  from save_session_empty [OF e, where ext = demo_ext and self = demo_iface
      and a = demo_app and now = 0 and r = demo_response and w = ?w]
  have "x = None"
    and "calls w' = calls ?w @ [Delete (key_prefix demo_iface @ sid emptied_session)]"
    and "store w' = (store ?w)(key_prefix demo_iface @ sid emptied_session := None)"
    and "warnings w' = warnings ?w"
    and "r' = demo_response\<lparr>cookie_ops := cookie_ops demo_response @
               [DeleteCookie (session_cookie_name demo_app) (cookie_domain demo_app)
                  (cookie_path demo_app)]\<rparr>"
    unfolding s using p m by simp_all
  then have "x = None"
    and "r' = \<lparr>is_file_body = False, cookie_ops = [DeleteCookie ''session'' None ''/'']\<rparr>"
    and "w' = \<lparr>store = Map.empty, calls = [Delete ''session:abc-123''], warnings = []\<rparr>"
    by (simp_all add: demo_defs)
  with s e p m show ?thesis by simp
qed

text \<open>
  C5, as stated, fails where signing is enabled and the application has no secret
  key: \<^verbatim>\<open>_get_signer\<close> returns \<^verbatim>\<open>None\<close>, so after the payload has been written to
  the backend the call of \<^verbatim>\<open>sign\<close> raises \<^verbatim>\<open>AttributeError\<close>, and the response
  gets no cookie.
\<close>

theorem save_session_keyless_counterexample:
  "sdata demo_session \<noteq> [] \<and>
   passes_early_checks signing_iface demo_session demo_response \<and>
   use_signer signing_iface \<and>
   save_session demo_ext signing_iface keyless_app 0 demo_session demo_response demo_world =
     (Some AttributeError,
      demo_response,
      \<lparr>store = [''session:abc-123'' \<mapsto> (''{user: alice, count: 3}'', 2678400)],
       calls = [Setex ''session:abc-123'' ''{user: alice, count: 3}'' 2678400],
       warnings = []\<rparr>) \<and>
   cookie_ops demo_response = []"
  by (simp add: save_session_def passes_early_checks_def get_signer_def backend_set_def
        total_seconds_def get_expiration_time_def Let_def demo_defs)

text \<open>
  C5, amended. For a non-empty session that passes the early checks, where signing
  is disabled or a signer can be obtained (a secret key is configured),
  \<^verbatim>\<open>save_session\<close> raises nothing; it writes the serializer-encoded data to the
  backend under the key \<^verbatim>\<open>key_prefix + sid\<close>, with the permanent-session lifetime in
  whole seconds as the expiry whatever the session's \<^verbatim>\<open>permanent\<close> flag (the
  Memcached adapter passes that number through its timeout translation); and it sets
  the response cookie, whose value is the signed identifier when signing is enabled
  and the raw identifier otherwise. The \<^verbatim>\<open>permanent\<close> flag decides the cookie's
  expiry only.
\<close>

theorem save_session_nonempty:
  assumes "sdata s \<noteq> []"
    and "passes_early_checks self s r"
    and "use_signer self \<longrightarrow> get_signer a = Some k"
  shows "case save_session ext self a now s r w of
           (e, r', w') \<Rightarrow>
             e = None \<and>
             calls w' = calls w @
               [if kind self = Memcached
                then Set (key_prefix self @ sid s) (dumps ext (sdata s))
                       (get_memcache_timeout now
                          (total_seconds (permanent_session_lifetime a)))
                else Setex (key_prefix self @ sid s) (dumps ext (sdata s))
                       (total_seconds (permanent_session_lifetime a))] \<and>
             store w' = (store w)(key_prefix self @ sid s \<mapsto>
               (dumps ext (sdata s),
                if kind self = Memcached
                then get_memcache_timeout now (total_seconds (permanent_session_lifetime a))
                else total_seconds (permanent_session_lifetime a))) \<and>
             warnings w' = warnings w \<and>
             r' = r\<lparr>cookie_ops := cookie_ops r @
                     [SetCookie
                        \<lparr>c_name = session_cookie_name a,
                         c_value = (if use_signer self then sign ext k (sid s) else sid s),
                         c_expires = (if truthy (get_permanent s)
                                      then Some (permanent_session_lifetime a) else None),
                         c_httponly = cookie_httponly a, c_domain = cookie_domain a,
                         c_path = cookie_path a, c_secure = cookie_secure a\<rparr>]\<rparr>"
  by (simp add: save_session_nonempty_eq [OF assms] backend_set_effect set_cookie_def
        get_expiration_time_def)

theorem save_session_nonempty_witness:
  "sdata demo_session \<noteq> [] \<and>
   passes_early_checks signing_iface demo_session demo_response \<and>
   use_signer signing_iface \<and> get_signer demo_app = Some ''s3cret'' \<and>
   save_session demo_ext signing_iface demo_app 0 demo_session demo_response demo_world =
     (None,
      \<lparr>is_file_body = False,
       cookie_ops = [SetCookie \<lparr>c_name = ''session'', c_value = ''abc-123.s3cret'',
                                c_expires = None, c_httponly = True, c_domain = None,
                                c_path = ''/'', c_secure = False\<rparr>]\<rparr>,
      \<lparr>store = [''session:abc-123'' \<mapsto> (''{user: alice, count: 3}'', 2678400)],
       calls = [Setex ''session:abc-123'' ''{user: alice, count: 3}'' 2678400],
       warnings = []\<rparr>)"
proof -
  have 1: "sdata demo_session \<noteq> []" by (simp add: demo_defs)
  have 2: "passes_early_checks signing_iface demo_session demo_response"
    by (simp add: passes_early_checks_def demo_defs)
  have 3: "use_signer signing_iface \<longrightarrow> get_signer demo_app = Some ''s3cret''"
    by (simp add: get_signer_def demo_defs)
  obtain x r' w' where
    s: "save_session demo_ext signing_iface demo_app 0 demo_session demo_response demo_world
          = (x, r', w')"
    by (rule prod_cases3)
  from save_session_nonempty [OF 1 2 3, where ext = demo_ext and now = 0 and w = demo_world]
  have "x = None"
    and "r' = \<lparr>is_file_body = False,
       cookie_ops = [SetCookie \<lparr>c_name = ''session'', c_value = ''abc-123.s3cret'',
                                c_expires = None, c_httponly = True, c_domain = None,
                                c_path = ''/'', c_secure = False\<rparr>]\<rparr>"
    and "calls w' = [Setex ''session:abc-123'' ''{user: alice, count: 3}'' 2678400]"
    and "store w' = [''session:abc-123'' \<mapsto> (''{user: alice, count: 3}'', 2678400)]"
    and "warnings w' = []"
    unfolding s
    by (simp_all add: get_permanent_def dict_get_def total_seconds_def demo_defs)
  then have "x = None"
    and "r' = \<lparr>is_file_body = False,
       cookie_ops = [SetCookie \<lparr>c_name = ''session'', c_value = ''abc-123.s3cret'',
                                c_expires = None, c_httponly = True, c_domain = None,
                                c_path = ''/'', c_secure = False\<rparr>]\<rparr>"
    and "w' = \<lparr>store = [''session:abc-123'' \<mapsto> (''{user: alice, count: 3}'', 2678400)],
       calls = [Setex ''session:abc-123'' ''{user: alice, count: 3}'' 2678400],
       warnings = []\<rparr>"
    by simp_all
  moreover have "use_signer signing_iface" and "get_signer demo_app = Some ''s3cret''"
    by (simp_all add: get_signer_def demo_defs)
  ultimately show ?thesis using s 1 2 by simp
qed


section \<open>Opening\<close>




text \<open>
  C3, as stated, fails in its last part: the session returned on a mismatch is not
  empty. It is bound to the address in \<^verbatim>\<open>options\<close>. Here the stored address is
  10.0.0.1 and the request comes from 10.0.0.2.
\<close>

theorem open_session_mismatch_counterexample:
  "SESSION_HIJACK_PROTECTION (config bound_iface) \<and>
   addr_mismatch demo_ext bound_iface demo_app (demo_request (Some ''abc-123''))
     (stored_world ''session:abc-123'' ''{_addr: 10.0.0.1, user: alice}'') \<and>
   open_session demo_ext bound_iface demo_app (demo_request (Some ''abc-123'')) demo_uuid
       (stored_world ''session:abc-123'' ''{_addr: 10.0.0.1, user: alice}'') =
     (Inr (Some \<lparr>sdata = [(''_addr'', PStr ''10.0.0.2'')], sid = demo_uuid,
                  modified = True, is_dirty = False\<rparr>),
      \<lparr>store = Map.empty,
       calls = [Get ''session:abc-123'', Delete ''session:abc-123''],
       warnings = []\<rparr>) \<and>
   [(''_addr'', PStr ''10.0.0.2'')] \<noteq> ([] :: pydict)"
  by (simp add: addr_mismatch_def presented_sid_def fetched_def open_session_def
        load_session_def backend_get_def backend_delete_def hijack_addr_def
        options_addr_def headers_get_def dict_get_def new_session_def ServerSideSession_def
        generate_sid_def set_addr_def setitem_def Let_def demo_defs)

text \<open>
  C3, amended. With hijack protection enabled and a payload that decodes to a
  mapping, \<^verbatim>\<open>open_session\<close> compares the address stored under \<^verbatim>\<open>_addr\<close> with the
  address of the request: the forwarded-for header (or, without one, the remote
  address) when the reverse-proxy flag is enabled, the remote address otherwise. A
  payload with no stored address passes. On a mismatch it deletes the backend entry
  of the old identifier and returns a new session with the fresh identifier, which
  holds nothing of the payload, only what the constructor binds (the \<^verbatim>\<open>permanent\<close>
  flag and the address in \<^verbatim>\<open>options\<close>, so it is not empty in general). Otherwise
  it deletes nothing and hands the payload and the presented identifier to the
  constructor, whose outcome is the outcome of the call.
\<close>

theorem open_session_hijack_check:
  assumes "SESSION_HIJACK_PROTECTION (config self)"
    and "presented_sid ext self a r = Some sid'"
    and "fetched self sid' w = Some val"
    and "loads ext val = Some (PDict d)"
  shows "case open_session ext self a r uuid w of
           (res, w') \<Rightarrow>
             (let current =
                    (if SESSION_HIJACK_REVERSE_PROXY (config self)
                     then (case headers r ''X-Forwarded-For'' of
                             None \<Rightarrow> remote_addr r
                           | Some h \<Rightarrow> Some h)
                     else remote_addr r);
                  key = key_prefix self @ sid'
              in if (case map_of d ''_addr'' of
                       None \<Rightarrow> False
                     | Some stored \<Rightarrow> stored \<noteq> str_val current)
                 then res = Inr (Some \<lparr>sdata = bindings self r, sid = uuid,
                                       modified = (bindings self r \<noteq> []),
                                       is_dirty = False\<rparr>) \<and>
                      calls w' = calls w @ [Get key, Delete key] \<and>
                      store w' = (store w)(key := None)
                 else res = (if ''self'' \<in> set (map fst d) then Inl TypeError
                             else Inr (Some \<lparr>sdata = d, sid = sid', modified = False,
                                              is_dirty = False\<rparr>)) \<and>
                      calls w' = calls w @ [Get key] \<and>
                      store w' = store w)"
proof -
  have cur: "(if SESSION_HIJACK_REVERSE_PROXY (config self)
              then (case headers r ''X-Forwarded-For'' of
                      None \<Rightarrow> remote_addr r
                    | Some h \<Rightarrow> Some h)
              else remote_addr r) = hijack_addr self r"
    by (simp add: hijack_addr_def headers_get_def)
  have cond: "(case map_of d ''_addr'' of
                 None \<Rightarrow> False
               | Some stored \<Rightarrow> stored \<noteq> str_val (hijack_addr self r)) \<longleftrightarrow>
              dict_get d ''_addr'' (str_val (hijack_addr self r))
                \<noteq> str_val (hijack_addr self r)"
    by (simp add: dict_get_def split: option.splits)
  show ?thesis
    unfolding cur
    using assms(1)
    by (simp add: open_session_presented [OF assms(2)] load_session_dict [OF assms(3,4)]
          cond new_session_eq rehydrate_dict backend_delete_def Let_def)
qed

theorem open_session_hijack_check_witness:
  "SESSION_HIJACK_PROTECTION (config bound_iface) \<and>
   presented_sid demo_ext bound_iface demo_app (demo_request (Some ''abc-123''))
     = Some ''abc-123'' \<and>
   fetched bound_iface ''abc-123''
     (stored_world ''session:abc-123'' ''{_addr: 10.0.0.1, user: alice}'')
     = Some ''{_addr: 10.0.0.1, user: alice}'' \<and>
   loads demo_ext ''{_addr: 10.0.0.1, user: alice}'' = Some (PDict demo_bound) \<and>
   fst (open_session demo_ext bound_iface demo_app (demo_request (Some ''abc-123''))
          demo_uuid (stored_world ''session:abc-123'' ''{_addr: 10.0.0.1, user: alice}''))
     = Inr (Some \<lparr>sdata = [(''_addr'', PStr ''10.0.0.2'')], sid = demo_uuid,
                   modified = True, is_dirty = False\<rparr>) \<and>
   calls (snd (open_session demo_ext bound_iface demo_app
                 (demo_request (Some ''abc-123'')) demo_uuid
                 (stored_world ''session:abc-123'' ''{_addr: 10.0.0.1, user: alice}'')))
     = [Get ''session:abc-123'', Delete ''session:abc-123'']"
proof -
  let ?r = "demo_request (Some ''abc-123'')"
  let ?w = "stored_world ''session:abc-123'' ''{_addr: 10.0.0.1, user: alice}''"
  have 1: "SESSION_HIJACK_PROTECTION (config bound_iface)" by (simp add: demo_defs)
  have 2: "presented_sid demo_ext bound_iface demo_app ?r = Some ''abc-123''"
    by (simp add: presented_sid_def demo_defs)
  have 3: "fetched bound_iface ''abc-123'' ?w = Some ''{_addr: 10.0.0.1, user: alice}''"
    by (simp add: fetched_def backend_get_def demo_defs)
  have 4: "loads demo_ext ''{_addr: 10.0.0.1, user: alice}'' = Some (PDict demo_bound)"
    by (simp add: demo_ext_def demo_loads_def)
  obtain res w' where
    s: "open_session demo_ext bound_iface demo_app ?r demo_uuid ?w = (res, w')"
    by (rule prod.exhaust)
  from open_session_hijack_check [OF 1 2 3 4, of demo_uuid]
  have "res = Inr (Some \<lparr>sdata = bindings bound_iface ?r, sid = demo_uuid,
                          modified = (bindings bound_iface ?r \<noteq> []), is_dirty = False\<rparr>)"
    and "calls w' = calls ?w @ [Get ''session:abc-123'', Delete ''session:abc-123'']"
    unfolding s by (simp_all add: Let_def demo_defs)
  moreover have "bindings bound_iface ?r = [(''_addr'', PStr ''10.0.0.2'')]"
    by (simp add: bindings_def options_addr_def headers_get_def demo_defs)
  moreover have "calls ?w = []" by (simp add: demo_defs)
  ultimately show ?thesis using 1 2 3 4 s by simp
qed

text \<open>
  C7, as stated, fails: with signing enabled and no secret key, a request without a
  session cookie gets a new session, since the test for the cookie comes before the
  signer is asked for.
\<close>

theorem open_session_keyless_counterexample:
  "use_signer signing_iface \<and> secret_key keyless_app = None \<and>
   get_signer keyless_app = None \<and>
   open_session demo_ext signing_iface keyless_app (demo_request None) demo_uuid demo_world =
     (Inr (Some \<lparr>sdata = [(''_permanent'', PBool True)], sid = demo_uuid,
                  modified = True, is_dirty = False\<rparr>),
      demo_world)"
  by (simp add: get_signer_def open_session_def options_addr_def new_session_def
        ServerSideSession_def generate_sid_def set_permanent_def setitem_def Let_def
        demo_defs)

text \<open>
  C7, amended. When signing is enabled, no secret key is configured and the request
  carries a non-empty session cookie, \<^verbatim>\<open>open_session\<close> logs a warning and returns
  \<^verbatim>\<open>None\<close> in place of a session: it raises nothing, makes no call to the backend
  and, unlike the bad-signature path, returns no new session. A request without a
  cookie gets a new session as in any configuration.
\<close>

theorem open_session_no_signer:
  assumes "use_signer self" and "\<not> truthy_str (secret_key a)"
  shows "open_session ext self a r uuid w =
           (if missing_cookie a r
            then (Inr (Some \<lparr>sdata = bindings self r, sid = uuid,
                             modified = (bindings self r \<noteq> []), is_dirty = False\<rparr>), w)
            else (Inr None,
                  w\<lparr>warnings := warnings w @ [''Failed to obtain a valid signer.'']\<rparr>))"
proof (cases "missing_cookie a r")
  case True
  then show ?thesis by (simp add: open_session_missing new_session_eq)
next
  case False
  then obtain c where "cookies r (session_cookie_name a) = Some c" and "c \<noteq> []"
    by (cases "cookies r (session_cookie_name a)") (simp_all add: missing_cookie_def)
  with assms False show ?thesis
    by (simp add: open_session_def get_signer_def warning_def)
qed

theorem open_session_no_signer_witness:
  "use_signer signing_iface \<and> \<not> truthy_str (secret_key keyless_app) \<and>
   open_session demo_ext signing_iface keyless_app (demo_request (Some ''abc-123.s3cret''))
       demo_uuid (stored_world ''session:abc-123'' ''{user: alice, count: 3}'') =
     (Inr None,
      \<lparr>store = [''session:abc-123'' \<mapsto> (''{user: alice, count: 3}'', 2678400)],
       calls = [], warnings = [''Failed to obtain a valid signer.'']\<rparr>)"
proof -
  have 1: "use_signer signing_iface" by (simp add: demo_defs)
  have 2: "\<not> truthy_str (secret_key keyless_app)" by (simp add: demo_defs)
  have 3: "\<not> missing_cookie keyless_app (demo_request (Some ''abc-123.s3cret''))"
    by (simp add: missing_cookie_def demo_defs)
  from open_session_no_signer [OF 1 2, of demo_ext "demo_request (Some ''abc-123.s3cret'')"
      demo_uuid "stored_world ''session:abc-123'' ''{user: alice, count: 3}''"] 1 2 3
  show ?thesis by (simp add: stored_world_def)
qed

text \<open>
  C9, as stated, fails with signing enabled: what is kept is not the cookie but the
  payload the signer recovers from it, and that is not tested for emptiness. Here
  the cookie is the signature of the empty string, and the backend has an entry
  under the bare key prefix.
\<close>

theorem open_session_empty_sid_counterexample:
  "open_session demo_ext signing_iface demo_app (demo_request (Some ''.s3cret'')) demo_uuid
       (stored_world ''session:'' ''{user: alice, count: 3}'') =
     (Inr (Some \<lparr>sdata = [(''user'', PStr ''alice''), (''count'', PInt 3)], sid = [],
                  modified = False, is_dirty = False\<rparr>),
      \<lparr>store = [''session:'' \<mapsto> (''{user: alice, count: 3}'', 2678400)],
       calls = [Get ''session:''], warnings = []\<rparr>)"
  by (simp add: open_session_def load_session_def backend_get_def get_signer_def
        options_addr_def rehydrate_def ServerSideSession_def Let_def demo_defs)

text \<open>
  C9, amended. Every session returned by \<^verbatim>\<open>open_session\<close> has a non-empty
  identifier, provided the generated UUID string is not empty and, when signing is
  enabled, the payload recovered from the signed cookie is not empty: each branch
  keeps the cookie's identifier (without signing: the non-empty cookie itself) or
  assigns the generated one.
\<close>

theorem open_session_sid_nonempty:
  assumes "uuid \<noteq> []"
    and "use_signer self \<longrightarrow> presented_sid ext self a r \<noteq> Some []"
    and "fst (open_session ext self a r uuid w) = Inr (Some s)"
  shows "sid s \<noteq> []"
proof -
  from open_session_sid [OF assms(3)]
  consider "sid s = uuid" | "presented_sid ext self a r = Some (sid s)" by blast
  then show ?thesis
  proof cases
    case 1
    with assms(1) show ?thesis by simp
  next
    case 2
    show ?thesis
    proof (cases "use_signer self")
      case True
      with assms(2) 2 show ?thesis by auto
    next
      case False
      from presented_sid_unsigned [OF False 2] show ?thesis .
    qed
  qed
qed

theorem open_session_sid_nonempty_witness:
  "demo_uuid \<noteq> [] \<and>
   use_signer signing_iface \<and>
   presented_sid demo_ext signing_iface demo_app (demo_request (Some ''abc-123.s3cret''))
     = Some ''abc-123'' \<and>
   fst (open_session demo_ext signing_iface demo_app (demo_request (Some ''abc-123.s3cret''))
          demo_uuid (stored_world ''session:abc-123'' ''{user: alice, count: 3}''))
     = Inr (Some \<lparr>sdata = demo_data, sid = ''abc-123'', modified = False,
                   is_dirty = False\<rparr>) \<and>
   sid \<lparr>sdata = demo_data, sid = ''abc-123'', modified = False, is_dirty = False\<rparr> \<noteq> []"
proof -
  let ?r = "demo_request (Some ''abc-123.s3cret'')"
  let ?w = "stored_world ''session:abc-123'' ''{user: alice, count: 3}''"
  let ?s = "\<lparr>sdata = demo_data, sid = ''abc-123'', modified = False, is_dirty = False\<rparr>"
  have 1: "demo_uuid \<noteq> []" by (simp add: demo_uuid_def)
  have p: "presented_sid demo_ext signing_iface demo_app ?r = Some ''abc-123''"
    by (simp add: presented_sid_def get_signer_def demo_defs)
  then have 2: "use_signer signing_iface \<longrightarrow>
                presented_sid demo_ext signing_iface demo_app ?r \<noteq> Some []"
    by simp
  have 3: "fst (open_session demo_ext signing_iface demo_app ?r demo_uuid ?w) = Inr (Some ?s)"
    by (simp add: open_session_def load_session_def backend_get_def get_signer_def
          options_addr_def rehydrate_def ServerSideSession_def Let_def demo_defs)
  have u: "use_signer signing_iface" by (simp add: demo_defs)
  from open_session_sid_nonempty [OF 1 2 3] 1 p 3 u show ?thesis by simp
qed



section \<open>Saving, then opening\<close>

text \<open>
  Let \<^verbatim>\<open>save_session\<close> store a non-empty session that has no item with the key
  \<^verbatim>\<open>self\<close>, and let a later request carry the cookie that call set. Where the
  signer accepts what it signed, the serializer's \<^verbatim>\<open>loads\<close> undoes its \<^verbatim>\<open>dumps\<close>
  on the session's data, and the hijack check passes, \<^verbatim>\<open>open_session\<close> returns a
  session with the saved identifier and the saved data.
\<close>

lemma save_then_open_roundtrip:
  assumes ne: "sdata s \<noteq> []"
    and noself: "''self'' \<notin> set (map fst (sdata s))"
    and early: "passes_early_checks self s r0"
    and signer: "use_signer self \<longrightarrow>
           get_signer a = Some k \<and> unsign ext k (sign ext k (sid s)) = Some (sid s)"
    and inverse: "loads ext (dumps ext (sdata s)) = Some (PDict (sdata s))"
    and trio: "kind self = RedisTrio \<longrightarrow> dumps ext (sdata s) \<noteq> []"
    and saved: "save_session ext self a now s r0 w0 = (e, r1, w1)"
    and ops: "cookie_ops r1 = cookie_ops r0 @ [SetCookie c]"
    and sent: "cookies r (c_name c) = Some (c_value c)"
    and filled: "c_value c \<noteq> []"
    and hijack: "hijack_check_passes self r (PDict (sdata s))"
  shows "e = None \<and>
         fst (open_session ext self a r uuid w1) =
           Inr (Some \<lparr>sdata = sdata s, sid = sid s, modified = False, is_dirty = False\<rparr>)"
proof -
  from signer have sg: "use_signer self \<longrightarrow> get_signer a = Some k" by simp
  note eq = save_session_nonempty_eq [OF ne early sg, of ext now w0]
  from eq saved have e: "e = None"
    and r1: "r1 = set_cookie
               \<lparr>c_name = session_cookie_name a,
                c_value = (if use_signer self then sign ext k (sid s) else sid s),
                c_expires = get_expiration_time a s,
                c_httponly = cookie_httponly a, c_domain = cookie_domain a,
                c_path = cookie_path a, c_secure = cookie_secure a\<rparr> r0"
    and w1: "w1 = backend_set (kind self) a now (key_prefix self @ sid s)
                    (dumps ext (sdata s)) w0"
    by simp_all
  from r1 ops have
    "c = \<lparr>c_name = session_cookie_name a,
          c_value = (if use_signer self then sign ext k (sid s) else sid s),
          c_expires = get_expiration_time a s,
          c_httponly = cookie_httponly a, c_domain = cookie_domain a,
          c_path = cookie_path a, c_secure = cookie_secure a\<rparr>"
    by (simp add: set_cookie_def)
  then have c: "c_name c = session_cookie_name a"
    "c_value c = (if use_signer self then sign ext k (sid s) else sid s)"
    by simp_all
  have p: "presented_sid ext self a r = Some (sid s)"
    using signer sent filled c by (auto simp add: presented_sid_def)
  obtain x where st: "store w1 (key_prefix self @ sid s) = Some (dumps ext (sdata s), x)"
    unfolding w1 by (simp add: backend_set_effect)
  have f: "fetched self (sid s) w1 = Some (dumps ext (sdata s))"
    using trio
    by (cases "kind self") (simp_all add: fetched_def backend_get_def st Let_def)
  from open_session_rehydrates [OF p f inverse hijack, of uuid] e noself show ?thesis
    by (simp add: rehydrate_dict)
qed

lemma save_then_open_roundtrip_example:
  "fst (open_session demo_ext signing_iface demo_app (demo_request (Some ''abc-123.s3cret''))
          demo_uuid
          (snd (snd (save_session demo_ext signing_iface demo_app 0 demo_session
                       demo_response demo_world)))) =
     Inr (Some \<lparr>sdata = [(''user'', PStr ''alice''), (''count'', PInt 3)],
                 sid = ''abc-123'', modified = False, is_dirty = False\<rparr>)"
proof -
  let ?r = "demo_request (Some ''abc-123.s3cret'')"
  let ?c = "\<lparr>c_name = ''session'', c_value = ''abc-123.s3cret'', c_expires = None,
             c_httponly = True, c_domain = None, c_path = ''/'', c_secure = False\<rparr>"
  have 1: "sdata demo_session \<noteq> []" by (simp add: demo_defs)
  have 2: "''self'' \<notin> set (map fst (sdata demo_session))" by (simp add: demo_defs)
  have 3: "passes_early_checks signing_iface demo_session demo_response"
    by (simp add: passes_early_checks_def demo_defs)
  have g: "get_signer demo_app = Some ''s3cret''" by (simp add: get_signer_def demo_defs)
  have rt: "unsign demo_ext ''s3cret'' (sign demo_ext ''s3cret'' (sid demo_session))
              = Some (sid demo_session)"
    by (simp add: demo_defs)
  from g rt have 4: "use_signer signing_iface \<longrightarrow>
      get_signer demo_app = Some ''s3cret'' \<and>
      unsign demo_ext ''s3cret'' (sign demo_ext ''s3cret'' (sid demo_session))
        = Some (sid demo_session)"
    by simp
  have 5: "loads demo_ext (dumps demo_ext (sdata demo_session))
             = Some (PDict (sdata demo_session))"
    by (simp add: demo_defs)
  have 6: "kind signing_iface = RedisTrio \<longrightarrow> dumps demo_ext (sdata demo_session) \<noteq> []"
    by (simp add: demo_defs)
  obtain x r1 w1 where
    7: "save_session demo_ext signing_iface demo_app 0 demo_session demo_response demo_world
          = (x, r1, w1)"
    by (rule prod_cases3)
  have "fst (snd (save_session demo_ext signing_iface demo_app 0 demo_session demo_response
                    demo_world)) = \<lparr>is_file_body = False, cookie_ops = [SetCookie ?c]\<rparr>"
    by (simp add: save_session_def get_signer_def backend_set_def set_cookie_def
          get_expiration_time_def get_permanent_def dict_get_def total_seconds_def
          Let_def demo_defs)
  with 7 have "cookie_ops r1 = [SetCookie ?c]" by simp
  then have 8: "cookie_ops r1 = cookie_ops demo_response @ [SetCookie ?c]"
    by (simp add: demo_defs)
  have 9: "cookies ?r (c_name ?c) = Some (c_value ?c)" by (simp add: demo_defs)
  have 10: "c_value ?c \<noteq> []" by simp
  have 11: "hijack_check_passes signing_iface ?r (PDict (sdata demo_session))"
    by (simp add: hijack_check_passes_def demo_defs)
  from save_then_open_roundtrip [OF 1 2 3 4 5 6 7 8 9 10 11, of demo_uuid]
  have "fst (open_session demo_ext signing_iface demo_app ?r demo_uuid w1) =
          Inr (Some \<lparr>sdata = sdata demo_session, sid = sid demo_session, modified = False,
                      is_dirty = False\<rparr>)"
    by simp
  with 7 show ?thesis by (simp add: demo_session_def demo_data_def)
qed

text \<open>
  C2. For every session whose identifier is valid, whose backend entry is present
  and decodable and whose hijack check passes, \<^verbatim>\<open>open_session\<close> should return a
  session whose data mapping equals the mapping that \<^verbatim>\<open>save_session\<close> stored. The
  code misses one case. The session below holds the single item \<^verbatim>\<open>self\<close>;
  identifiers are unsigned and hijack protection is off. \<^verbatim>\<open>save_session\<close> stores
  the encoded mapping and sets the cookie; for the request that brings the cookie
  back the entry is found and decoded to the saved mapping, and then the constructor
  call \<^verbatim>\<open>session_class(data, sid)\<close> raises \<^verbatim>\<open>TypeError\<close>: no session is returned.
\<close>

theorem save_then_open_self_key:
  "sdata self_session = [(''self'', PInt 1)] \<and>
   passes_early_checks demo_iface self_session demo_response \<and>
   save_session demo_ext demo_iface demo_app 0 self_session demo_response demo_world =
     (None,
      \<lparr>is_file_body = False,
       cookie_ops = [SetCookie \<lparr>c_name = ''session'', c_value = ''abc-123'',
                                c_expires = None, c_httponly = True, c_domain = None,
                                c_path = ''/'', c_secure = False\<rparr>]\<rparr>,
      \<lparr>store = [''session:abc-123'' \<mapsto> (''{self: 1}'', 2678400)],
       calls = [Setex ''session:abc-123'' ''{self: 1}'' 2678400],
       warnings = []\<rparr>) \<and>
   presented_sid demo_ext demo_iface demo_app (demo_request (Some ''abc-123''))
     = Some ''abc-123'' \<and>
   loads demo_ext ''{self: 1}'' = Some (PDict (sdata self_session)) \<and>
   \<not> SESSION_HIJACK_PROTECTION (config demo_iface) \<and>
   open_session demo_ext demo_iface demo_app (demo_request (Some ''abc-123'')) demo_uuid
       \<lparr>store = [''session:abc-123'' \<mapsto> (''{self: 1}'', 2678400)],
        calls = [Setex ''session:abc-123'' ''{self: 1}'' 2678400],
        warnings = []\<rparr> =
     (Inl TypeError,
      \<lparr>store = [''session:abc-123'' \<mapsto> (''{self: 1}'', 2678400)],
       calls = [Setex ''session:abc-123'' ''{self: 1}'' 2678400, Get ''session:abc-123''],
       warnings = []\<rparr>)"
proof (intro conjI)
  show "sdata self_session = [(''self'', PInt 1)]" by (simp add: demo_defs)
  show "passes_early_checks demo_iface self_session demo_response"
    by (simp add: passes_early_checks_def demo_defs)
  show "save_session demo_ext demo_iface demo_app 0 self_session demo_response demo_world =
     (None,
      \<lparr>is_file_body = False,
       cookie_ops = [SetCookie \<lparr>c_name = ''session'', c_value = ''abc-123'',
                                c_expires = None, c_httponly = True, c_domain = None,
                                c_path = ''/'', c_secure = False\<rparr>]\<rparr>,
      \<lparr>store = [''session:abc-123'' \<mapsto> (''{self: 1}'', 2678400)],
       calls = [Setex ''session:abc-123'' ''{self: 1}'' 2678400],
       warnings = []\<rparr>)"
    by (simp add: save_session_def backend_set_def set_cookie_def get_expiration_time_def
          get_permanent_def dict_get_def total_seconds_def Let_def demo_defs)
  show "presented_sid demo_ext demo_iface demo_app (demo_request (Some ''abc-123''))
          = Some ''abc-123''"
    by (simp add: presented_sid_def demo_defs)
  show "loads demo_ext ''{self: 1}'' = Some (PDict (sdata self_session))"
    by (simp add: demo_defs)
  show "\<not> SESSION_HIJACK_PROTECTION (config demo_iface)"
    by (simp add: demo_defs)
  show "open_session demo_ext demo_iface demo_app (demo_request (Some ''abc-123'')) demo_uuid
       \<lparr>store = [''session:abc-123'' \<mapsto> (''{self: 1}'', 2678400)],
        calls = [Setex ''session:abc-123'' ''{self: 1}'' 2678400],
        warnings = []\<rparr> =
     (Inl TypeError,
      \<lparr>store = [''session:abc-123'' \<mapsto> (''{self: 1}'', 2678400)],
       calls = [Setex ''session:abc-123'' ''{self: 1}'' 2678400, Get ''session:abc-123''],
       warnings = []\<rparr>)"
    by (simp add: open_session_def load_session_def backend_get_def options_addr_def
          rehydrate_def ServerSideSession_def Let_def demo_defs)
qed

end
